theory Spec2Isabelle
  imports Complex_Main
begin

section \<open>Vectors and matrices\<close>

text \<open>
  The scalar type \<open>T\<close> of the source is a floating-point type. A scalar here is of any
  type \<open>'a\<close> that has the operations the code uses (0, 1, sum, difference, product,
  quotient, absolute value, comparison). No law of arithmetic is assumed of these
  operations, so nothing that is proved below depends on how the arithmetic rounds. A
  dynamically sized Eigen vector is a list of scalars. A dynamically sized Eigen matrix
  carries its row and column counts and is stored column by column, as Eigen does by
  default.
\<close>

type_synonym 'a vec = "'a list"

record 'a mat =
  nrows :: nat
  ncols :: nat
  columns :: "'a list list"

text \<open>
  \<open>Eigen::Matrix<T, Dynamic, Dynamic> jac(r, c)\<close> allocates storage and does not
  initialise it: the coefficient at row \<open>i\<close>, column \<open>j\<close> is whatever the storage
  held before, here \<open>mem i j\<close>.
\<close>

definition alloc :: "nat \<Rightarrow> nat \<Rightarrow> (nat \<Rightarrow> nat \<Rightarrow> 'a) \<Rightarrow> 'a mat" where
  "alloc r c mem =
     \<lparr>nrows = r, ncols = c, columns = map (\<lambda>j. map (\<lambda>i. mem i j) [0..<r]) [0..<c]\<rparr>"

text \<open>\<open>setZero()\<close> and \<open>setIdentity()\<close> keep the shape and overwrite every coefficient.\<close>

definition setZero :: "('a :: zero) mat \<Rightarrow> 'a mat" where
  "setZero A = A\<lparr>columns := replicate (ncols A) (replicate (nrows A) 0)\<rparr>"

definition unit_col :: "nat \<Rightarrow> nat \<Rightarrow> ('a :: {zero, one}) list" where
  "unit_col r j = map (\<lambda>i. if i = j then 1 else 0) [0..<r]"

definition setIdentity :: "('a :: {zero, one}) mat \<Rightarrow> 'a mat" where
  "setIdentity A = A\<lparr>columns := map (unit_col (nrows A)) [0..<ncols A]\<rparr>"

definition identity_mat :: "nat \<Rightarrow> ('a :: {zero, one}) mat" where
  "identity_mat n = \<lparr>nrows = n, ncols = n, columns = map (unit_col n) [0..<n]\<rparr>"


section \<open>State, measurement and the model object\<close>

text \<open>
  Modelled from the spec: \<open>State<T>\<close> and \<open>LieMeasurement<T>\<close>, whose declarations
  (\<open>kalman_lie/LieTypes.hpp\<close>) are missing. A state is the pair of the manifold
  coordinates \<open>x\<close> and the tangent velocity \<open>v\<close>, the two members the source uses; a
  measurement is a vector.
\<close>

record 'a state =
  x :: "'a vec"
  v :: "'a vec"

type_synonym 'a measurement = "'a vec"

text \<open>
  Modelled from the spec: the failures of the missing engine that a call can end with.
\<close>

datatype error = DimensionMismatch | ConfigurationError

text \<open>
  Modelled from the spec: the base \<open>Functor<T>\<close> (\<open>kalman_lie/NumericalDiff.hpp\<close>,
  missing), as what a differentiation functor offers to the engine: the evaluation
  operator, which writes \<open>fvec\<close> and returns a status code, and the two declared sizes,
  the \<open>inputs()\<close> and \<open>values()\<close> of the source.
\<close>

record 'a Functor =
  operator :: "'a vec \<Rightarrow> int \<times> 'a vec"
  num_inputs :: int
  num_values :: int

text \<open>
  Modelled from the spec: the members the class inherits from
  \<open>Kalman::LinearizedMeasurementModel\<close> (\<open>kalman/LinearizedMeasurementModel.hpp\<close>,
  missing), the Jacobian \<open>H\<close> and the noise Jacobian \<open>V\<close>; with them the member
  \<open>num_diff\<close> of the source. The type of \<open>num_diff\<close> is declared in the missing
  \<open>kalman_lie/NumericalDiff.hpp\<close>; its state is a type parameter \<open>'c\<close>. Whatever else
  the base classes hold is the extension part of the record.
\<close>

record ('a, 'c) model =
  H :: "'a mat"
  V :: "'a mat"
  num_diff :: 'c

text \<open>
  The method \<open>df\<close> of \<open>num_diff\<close>, as the source calls it: from the state of
  \<open>num_diff\<close>, the functor, the evaluation point and the work matrix passed by
  reference, either a failure or the work matrix after the call. The source's methods
  take it as a parameter.
\<close>

type_synonym ('a, 'c) engine = "'c \<Rightarrow> 'a Functor \<Rightarrow> 'a vec \<Rightarrow> 'a mat \<Rightarrow> error + 'a mat"

section \<open>The measurement model of the source\<close>

text \<open>
  \<open>LiePositionMeasurementModel()\<close>: \<open>num_diff\<close> is constructed from \<open>this\<close> (its
  state after construction is \<open>nd\<close>), then \<open>V.setIdentity()\<close>. The argument \<open>base\<close> is
  the object as the base-class constructors left it.
\<close>

definition LiePositionMeasurementModel ::
  "'c \<Rightarrow> ('a :: {zero, one}, 'c, 'z) model_scheme \<Rightarrow> ('a, 'c, 'z) model_scheme" where
  "LiePositionMeasurementModel nd base = base\<lparr>num_diff := nd, V := setIdentity (V base)\<rparr>"

text \<open>\<open>M h(const S& x) const\<close>: the measurement is a copy of the state's coordinates.\<close>

definition h :: "('a, 'c, 'z) model_scheme \<Rightarrow> 'a state \<Rightarrow> 'a measurement" where
  "h this s = (let measurement = x s in measurement)"

text \<open>
  \<open>LieFunctor_::operator()\<close>, with \<open>m\<close> the model the functor points to. The local state
  \<open>xx\<close> takes the argument as coordinates and a zero velocity; \<open>nv\<close> is the dimension
  of the velocity member of \<open>State<T>\<close>.
\<close>

definition LieFunctor_operator ::
  "nat \<Rightarrow> ('a :: zero, 'c, 'z) model_scheme \<Rightarrow> 'a vec \<Rightarrow> int \<times> 'a vec" where
  "LieFunctor_operator nv m xs =
     (let xx = \<lparr>x = xs, v = replicate nv 0\<rparr>;
          fvec = h m xx
      in (0, fvec))"

definition LieFunctor_inputs :: int where
  "LieFunctor_inputs = 6"

definition LieFunctor_values :: int where
  "LieFunctor_values = 6"

definition LieFunctor :: "nat \<Rightarrow> ('a :: zero, 'c, 'z) model_scheme \<Rightarrow> 'a Functor" where
  "LieFunctor nv m =
     \<lparr>operator = LieFunctor_operator nv m, num_inputs = LieFunctor_inputs,
       num_values = LieFunctor_values\<rparr>"

text \<open>
  \<open>updateJacobians(const S& x)\<close>. In order: \<open>H.setZero()\<close>; the line written to the
  console, kept as the pair of numbers it shows; the uninitialised 6 by 12 work matrix
  \<open>jac\<close> (\<open>mem\<close> is what its storage held); the copy \<open>xx\<close> of the coordinates; the call of
  \<open>num_diff.df\<close>, here the parameter \<open>num_diff_df\<close>; and \<open>H = jac\<close>. A failure of
  \<open>df\<close> leaves the method before the assignment. The result is the model after the
  call, the console line and the outcome.
\<close>

definition updateJacobians ::
  "('a :: zero, 'c) engine \<Rightarrow> nat \<Rightarrow> (nat \<Rightarrow> nat \<Rightarrow> 'a) \<Rightarrow> 'a state
     \<Rightarrow> ('a, 'c, 'z) model_scheme
     \<Rightarrow> ('a, 'c, 'z) model_scheme \<times> (nat \<times> nat) \<times> (error + unit)" where
  "updateJacobians num_diff_df nv mem s this =
     (let this1 = this\<lparr>H := setZero (H this)\<rparr>;
          out = (nrows (H this1), ncols (H this1));
          jac = alloc 6 12 mem;
          xx = x s
      in case num_diff_df (num_diff this1) (LieFunctor nv this1) xx jac of
           Inl e \<Rightarrow> (this1, out, Inl e)
         | Inr jac' \<Rightarrow> (this1\<lparr>H := jac'\<rparr>, out, Inr ()))"

text \<open>
  A caller's use of a model: any sequence of calls of \<open>h\<close> and \<open>updateJacobians\<close>. A call
  of the const method \<open>h\<close> hands back a measurement and leaves the object as it is; a
  failed \<open>updateJacobians\<close> leaves the object as it was when the failure happened.
\<close>

datatype 'a call = Call_h "'a state" | Call_updateJacobians "nat \<Rightarrow> nat \<Rightarrow> 'a" "'a state"

fun step ::
  "('a :: zero, 'c) engine \<Rightarrow> nat \<Rightarrow> 'a call \<Rightarrow> ('a, 'c, 'z) model_scheme
     \<Rightarrow> ('a, 'c, 'z) model_scheme" where
  "step num_diff_df nv (Call_h s) this = this"
| "step num_diff_df nv (Call_updateJacobians mem s) this =
     fst (updateJacobians num_diff_df nv mem s this)"

definition run ::
  "('a :: zero, 'c) engine \<Rightarrow> nat \<Rightarrow> 'a call list \<Rightarrow> ('a, 'c, 'z) model_scheme
     \<Rightarrow> ('a, 'c, 'z) model_scheme" where
  "run num_diff_df nv calls this = fold (step num_diff_df nv) calls this"

section \<open>The numerical differentiation engine\<close>

text \<open>
  Modelled from the spec: the engine behind \<open>num_diff.df\<close>, whose source
  (\<open>kalman_lie/NumericalDiff.hpp\<close>) is missing. The configuration is the one the spec
  lists: the absolute step floor, the relative step scale and the differencing mode.
\<close>

datatype diff_mode = Forward | Central

record 'a diff_config =
  eps_base :: 'a
  eps_rel :: 'a
  mode :: diff_mode

text \<open>
  Modelled from the spec: invalid step-size parameters of the missing engine are the
  non-positive ones.
\<close>

definition config_ok :: "('a :: {zero, ord}) diff_config \<Rightarrow> bool" where
  "config_ok cfg \<longleftrightarrow> 0 < eps_base cfg \<and> 0 < eps_rel cfg"

text \<open>
  Modelled from the spec: step 2a of the missing engine, the step size
  \<open>max(eps_base, eps_rel * |x0[j]|)\<close>.
\<close>

definition step_size :: "('a :: {ord, times, abs}) diff_config \<Rightarrow> 'a \<Rightarrow> 'a" where
  "step_size cfg xj = max (eps_base cfg) (eps_rel cfg * \<bar>xj\<bar>)"

text \<open>
  Modelled from the spec: step 2b of the missing engine, the evaluation point with
  component \<open>j\<close> moved by \<open>d\<close>. The engine calls it with \<open>j\<close> below the length only.
\<close>

definition perturb :: "('a :: plus) vec \<Rightarrow> nat \<Rightarrow> 'a \<Rightarrow> 'a vec" where
  "perturb xs j d = xs[j := xs ! j + d]"

text \<open>
  Modelled from the spec: one evaluation of the function by the missing engine. A
  result whose size is not the declared output size is a dimension mismatch. The spec
  gives the status code no meaning, and the engine does not read it.
\<close>

definition evaluate :: "'a Functor \<Rightarrow> 'a vec \<Rightarrow> error + 'a vec" where
  "evaluate F xs =
     (let (status, fvec) = operator F xs
      in if int (length fvec) = num_values F then Inr fvec else Inl DimensionMismatch)"

text \<open>
  Modelled from the spec: steps 2a to 2d of the missing engine for one input dimension
  \<open>j\<close>, giving column \<open>j\<close> of the Jacobian: \<open>(f_plus - f0) / eps\<close> for forward
  differences, \<open>(f_plus - f_minus) / (2 * eps)\<close> for central differences. The factor 2
  is written \<open>1 + 1\<close>, which asks nothing of the scalar type but its sum and its 1.
\<close>

definition fd_column ::
  "('a :: {one, plus, minus, uminus, times, inverse, abs, ord}) diff_config \<Rightarrow> 'a Functor
     \<Rightarrow> 'a vec \<Rightarrow> 'a vec \<Rightarrow> nat \<Rightarrow> error + 'a vec" where
  "fd_column cfg F x0 f0 j =
     (let eps = step_size cfg (x0 ! j)
      in case evaluate F (perturb x0 j eps) of
           Inl e \<Rightarrow> Inl e
         | Inr f_plus \<Rightarrow>
             (case mode cfg of
                Forward \<Rightarrow> Inr (map2 (\<lambda>p q. (p - q) / eps) f_plus f0)
              | Central \<Rightarrow>
                  (case evaluate F (perturb x0 j (- eps)) of
                     Inl e \<Rightarrow> Inl e
                   | Inr f_minus \<Rightarrow>
                       Inr (map2 (\<lambda>p q. (p - q) / ((1 + 1) * eps)) f_plus f_minus))))"

text \<open>
  Modelled from the spec: "set column \<open>j\<close> of J" by the missing engine, on the matrix
  the caller passed by reference. The other columns stay as they are; a column that
  the matrix cannot hold as it is, is a dimension mismatch, never cut or padded.
\<close>

definition set_column :: "'a mat \<Rightarrow> nat \<Rightarrow> 'a vec \<Rightarrow> error + 'a mat" where
  "set_column J j c =
     (if j < ncols J \<and> length c = nrows J then Inr (J\<lparr>columns := (columns J)[j := c]\<rparr>)
      else Inl DimensionMismatch)"

text \<open>
  Modelled from the spec: step 2 of the missing engine, the loop over the input
  dimensions in order, left at the first failure.
\<close>

fun fd_columns ::
  "('a :: {one, plus, minus, uminus, times, inverse, abs, ord}) diff_config \<Rightarrow> 'a Functor
     \<Rightarrow> 'a vec \<Rightarrow> 'a vec \<Rightarrow> nat list \<Rightarrow> 'a mat \<Rightarrow> error + 'a mat" where
  "fd_columns cfg F x0 f0 [] J = Inr J"
| "fd_columns cfg F x0 f0 (j # js) J =
     (case fd_column cfg F x0 f0 j of
        Inl e \<Rightarrow> Inl e
      | Inr c \<Rightarrow>
          (case set_column J j c of
             Inl e \<Rightarrow> Inl e
           | Inr J' \<Rightarrow> fd_columns cfg F x0 f0 js J'))"

text \<open>
  Modelled from the spec: \<open>df\<close> of the missing engine. An evaluation point whose size
  is not the declared input size is a dimension mismatch; non-positive step-size
  parameters are a configuration error; then \<open>f0 = f(x0)\<close> and one column for each
  input dimension in \<open>[0, n_in)\<close>.
\<close>

definition df ::
  "('a :: {zero, one, plus, minus, uminus, times, inverse, abs, ord}, 'a diff_config) engine"
  where
  "df cfg F x0 J =
     (if int (length x0) \<noteq> num_inputs F then Inl DimensionMismatch
      else if \<not> config_ok cfg then Inl ConfigurationError
      else case evaluate F x0 of
             Inl e \<Rightarrow> Inl e
           | Inr f0 \<Rightarrow> fd_columns cfg F x0 f0 [0..<nat (num_inputs F)] J)"

section \<open>Concrete inputs\<close>

text \<open>
  With real numbers as scalars: storage that held the same number everywhere, a
  configuration with positive step sizes, a model constructed over a 6 by 12 Jacobian
  and a 6 by 6 noise Jacobian, the state with coordinates 1 to 6 and a state with three
  coordinates.
\<close>

definition const_storage :: "real \<Rightarrow> nat \<Rightarrow> nat \<Rightarrow> real" where
  "const_storage c i j = c"

definition example_config :: "real diff_config" where
  "example_config = \<lparr>eps_base = 1 / 1000, eps_rel = 1 / 1000, mode = Forward\<rparr>"

definition example_model :: "(real, real diff_config) model" where
  "example_model =
     LiePositionMeasurementModel example_config
       \<lparr>H = alloc 6 12 (const_storage 0), V = alloc 6 6 (const_storage 0),
        num_diff = example_config\<rparr>"

definition example_state :: "real state" where
  "example_state = \<lparr>x = [1, 2, 3, 4, 5, 6], v = [0, 0, 0, 0, 0, 0]\<rparr>"

definition short_state :: "real state" where
  "short_state = \<lparr>x = [1, 2, 3], v = [0, 0, 0, 0, 0, 0]\<rparr>"

section \<open>Properties of the model and of the engine\<close>

lemma LieFunctor_operator_eq: "LieFunctor_operator nv m xs = (0, xs)"
  by (simp add: LieFunctor_operator_def h_def)

lemma LieFunctor_independent: "LieFunctor nv m = LieFunctor nv' m'"
  by (simp add: LieFunctor_def LieFunctor_operator_eq fun_eq_iff)

lemma setZero_idem: "setZero (setZero A) = setZero A"
  by (simp add: setZero_def)

lemma updateJacobians_V: "V (fst (updateJacobians eng nv mem s this)) = V this"
  by (simp add: updateJacobians_def Let_def split: sum.split)

lemma step_V: "V (step eng nv c this) = V this"
  by (cases c) (simp_all add: updateJacobians_V)

lemma run_V: "V (run eng nv calls this) = V this"
  unfolding run_def by (induction calls arbitrary: this) (simp_all add: step_V)

lemma setIdentity_square: "setIdentity (alloc n n mem) = identity_mat n"
  by (simp add: setIdentity_def alloc_def identity_mat_def)

text \<open>
  What \<open>updateJacobians\<close> returns, written out from the outcome of the engine. The functor
  evaluates to its argument whatever the model holds, so the engine is called on the
  same arguments before and after \<open>H.setZero()\<close>.
\<close>

lemma updateJacobians_result:
  "updateJacobians eng nv mem s this =
     (case eng (num_diff this) (LieFunctor nv this) (x s) (alloc 6 12 mem) of
        Inl e \<Rightarrow>
          (this\<lparr>H := (H this)\<lparr>columns :=
                   replicate (ncols (H this)) (replicate (nrows (H this)) 0)\<rparr>\<rparr>,
           (nrows (H this), ncols (H this)), Inl e)
      | Inr jac' \<Rightarrow> (this\<lparr>H := jac'\<rparr>, (nrows (H this), ncols (H this)), Inr ()))"
proof -
  have F: "LieFunctor nv (this\<lparr>H := setZero (H this)\<rparr>) = LieFunctor nv this"
    by (rule LieFunctor_independent)
  show ?thesis
    unfolding updateJacobians_def Let_def F
    by (simp add: setZero_def split: sum.split)
qed

lemma fd_columns_append:
  "fd_columns cfg F x0 f0 (js @ ks) J =
     (case fd_columns cfg F x0 f0 js J of
        Inl e \<Rightarrow> Inl e
      | Inr J' \<Rightarrow> fd_columns cfg F x0 f0 ks J')"
  by (induction js arbitrary: J) (simp_all split: sum.split)

lemma list_update_prefix:
  assumes "n < length cs"
  shows "(map c [0..<n] @ drop n cs)[n := c n] = map c [0..<Suc n] @ drop (Suc n) cs"
proof -
  have "(map c [0..<n] @ drop n cs)[n := c n] = map c [0..<n] @ (drop n cs)[0 := c n]"
    by (simp add: list_update_append)
  also have "(drop n cs)[0 := c n] = c n # drop (Suc n) cs"
    using assms by (simp add: Cons_nth_drop_Suc [symmetric])
  finally show ?thesis by simp
qed

lemma fd_columns_upt:
  assumes cols: "\<And>j. j < n \<Longrightarrow> fd_column cfg F x0 f0 j = Inr (c j) \<and> length (c j) = nrows J"
    and n: "n \<le> ncols J" and len: "length (columns J) = ncols J"
  shows "fd_columns cfg F x0 f0 [0..<n] J =
           Inr (J\<lparr>columns := map c [0..<n] @ drop n (columns J)\<rparr>)"
  using cols n
proof (induction n)
  case 0
  then show ?case by simp
next
  case (Suc n)
  have prev: "fd_columns cfg F x0 f0 [0..<n] J =
                Inr (J\<lparr>columns := map c [0..<n] @ drop n (columns J)\<rparr>)"
    using Suc by simp
  have col: "fd_column cfg F x0 f0 n = Inr (c n)" and cl: "length (c n) = nrows J"
    using Suc.prems(1) [of n] by simp_all
  have nlt: "n < length (columns J)" using Suc.prems(2) len by simp
  have upd: "(map c [0..<n] @ drop n (columns J))[n := c n] =
               map c [0..<Suc n] @ drop (Suc n) (columns J)"
    by (rule list_update_prefix [OF nlt])
  have nc: "n < ncols J" using Suc.prems(2) by simp
  have "fd_columns cfg F x0 f0 [0..<Suc n] J = fd_columns cfg F x0 f0 ([0..<n] @ [n]) J"
    by simp
  also have "\<dots> = fd_columns cfg F x0 f0 [n] (J\<lparr>columns := map c [0..<n] @ drop n (columns J)\<rparr>)"
    by (simp only: fd_columns_append prev sum.case)
  also have "\<dots> = Inr (J\<lparr>columns := (map c [0..<n] @ drop n (columns J))[n := c n]\<rparr>)"
    by (simp add: col cl nc set_column_def)
  finally show ?case
    by (simp only: upd)
qed

lemma evaluate_snd:
  assumes "snd (operator F xs) = ys" and "int (length ys) = num_values F"
  shows "evaluate F xs = Inr ys"
  using assms by (cases "operator F xs") (simp add: evaluate_def)

lemma length_perturb: "length (perturb xs j d) = length xs"
  by (simp add: perturb_def)





text \<open>
  On a vector of the declared size the functor of the source gives the engine a column
  of that size for every input dimension, whatever the arithmetic.
\<close>

lemma fd_column_LieFunctor:
  assumes len: "length x0 = 6"
  shows "\<exists>c. fd_column cfg (LieFunctor nv m) x0 x0 j = Inr c \<and> length c = 6"
proof -
  have ev: "evaluate (LieFunctor nv m) (perturb x0 j d) = Inr (perturb x0 j d)" for d
    by (rule evaluate_snd)
      (simp_all add: LieFunctor_def LieFunctor_operator_eq LieFunctor_values_def
        length_perturb len)
  show ?thesis
    by (cases "mode cfg") (simp_all add: fd_column_def Let_def ev length_perturb len)
qed

lemma df_LieFunctor_ok:
  assumes ok: "config_ok cfg" and len: "length x0 = 6"
  shows "\<exists>cs. length cs = 6 \<and>
           df cfg (LieFunctor nv m) x0 (alloc 6 12 mem) =
             Inr ((alloc 6 12 mem)\<lparr>columns := cs @ drop 6 (columns (alloc 6 12 mem))\<rparr>)"
proof -
  define c where
    "c j = (case fd_column cfg (LieFunctor nv m) x0 x0 j of Inr a \<Rightarrow> a | Inl e \<Rightarrow> [])" for j
  have col: "fd_column cfg (LieFunctor nv m) x0 x0 j = Inr (c j) \<and> length (c j) = 6" for j
    using fd_column_LieFunctor [OF len, of cfg nv m j] by (auto simp: c_def)
  have ev: "evaluate (LieFunctor nv m) x0 = Inr x0"
    by (rule evaluate_snd)
      (simp_all add: LieFunctor_def LieFunctor_operator_eq LieFunctor_values_def len)
  have ni: "num_inputs (LieFunctor nv m) = 6"
    by (simp add: LieFunctor_def LieFunctor_inputs_def)
  have cols: "fd_columns cfg (LieFunctor nv m) x0 x0 [0..<6] (alloc 6 12 mem) =
          Inr ((alloc 6 12 mem)\<lparr>columns := map c [0..<6] @ drop 6 (columns (alloc 6 12 mem))\<rparr>)"
    by (rule fd_columns_upt) (simp_all add: col alloc_def)
  have "df cfg (LieFunctor nv m) x0 (alloc 6 12 mem) =
          Inr ((alloc 6 12 mem)\<lparr>columns := map c [0..<6] @ drop 6 (columns (alloc 6 12 mem))\<rparr>)"
    by (simp add: df_def ni len ok ev cols)
  then show ?thesis
    by (intro exI [of _ "map c [0..<6]"]) simp
qed

lemma updateJacobians_df_ok:
  assumes ok: "config_ok (num_diff this)" and len: "length (x s) = 6"
  shows "\<exists>cs. length cs = 6 \<and>
           updateJacobians df nv mem s this =
             (this\<lparr>H := (alloc 6 12 mem)\<lparr>columns :=
                      cs @ drop 6 (columns (alloc 6 12 mem))\<rparr>\<rparr>,
              (nrows (H this), ncols (H this)), Inr ())"
proof -
  from df_LieFunctor_ok [OF ok len, of nv this mem] obtain cs where cs: "length cs = 6"
    and d: "df (num_diff this) (LieFunctor nv this) (x s) (alloc 6 12 mem) =
              Inr ((alloc 6 12 mem)\<lparr>columns := cs @ drop 6 (columns (alloc 6 12 mem))\<rparr>)"
    by blast
  show ?thesis
    by (intro exI [of _ cs]) (simp add: cs updateJacobians_result d)
qed

lemma updateJacobians_df_mismatch:
  assumes "length (x s) \<noteq> 6"
  shows "updateJacobians df nv mem s this =
           (this\<lparr>H := setZero (H this)\<rparr>, (nrows (H this), ncols (H this)),
            Inl DimensionMismatch)"
  using assms
  by (simp add: updateJacobians_def Let_def df_def LieFunctor_def LieFunctor_inputs_def
      setZero_def)

lemma example_config_ok: "config_ok (num_diff example_model)"
  by (simp add: example_model_def LiePositionMeasurementModel_def example_config_def
      config_ok_def)

lemma example_state_length: "length (x example_state) = 6"
  by (simp add: example_state_def)

lemma right_block_entry:
  assumes "length cs = 6"
  shows "(cs @ drop 6 (columns (alloc 6 12 mem))) ! 6 = map (\<lambda>i. mem i 6) [0..<6]"
  using assms by (simp add: alloc_def nth_append)


section \<open>The claims\<close>




text \<open>
  C2. For every state whose coordinate vector does not have the declared input size 6,
  \<open>updateJacobians\<close> fails with the dimension-mismatch error, whatever the work
  storage held and whatever the configuration: the object is left with \<open>H\<close> zeroed,
  every coefficient of \<open>H\<close> being 0, and nothing computed from cut or padded data is
  stored.
\<close>

theorem linearize_dimension_mismatch:
  assumes "length (x s) \<noteq> 6"
  shows "updateJacobians df nv mem s this =
           (this\<lparr>H := setZero (H this)\<rparr>, (nrows (H this), ncols (H this)),
            Inl DimensionMismatch) \<and>
         columns (H (fst (updateJacobians df nv mem s this))) =
           replicate (ncols (H this)) (replicate (nrows (H this)) 0)"
  by (simp add: updateJacobians_df_mismatch [OF assms] setZero_def)

theorem linearize_dimension_mismatch_witness:
  "length (x short_state) \<noteq> 6 \<and>
   updateJacobians df 6 (const_storage 1) short_state example_model =
     (example_model\<lparr>H := setZero (H example_model)\<rparr>,
      (nrows (H example_model), ncols (H example_model)), Inl DimensionMismatch) \<and>
   columns (H (fst (updateJacobians df 6 (const_storage 1) short_state example_model))) =
     replicate (ncols (H example_model)) (replicate (nrows (H example_model)) 0)"
proof -
  have l: "length (x short_state) \<noteq> 6" by (simp add: short_state_def)
  show ?thesis
    using l linearize_dimension_mismatch [OF l, of 6 "const_storage 1" example_model]
    by blast
qed

text \<open>
  C3. For every state, \<open>h\<close> returns exactly the coordinate vector of the state,
  whatever the model object holds; for the coordinates 1 to 6 it returns 1 to 6. The
  method hands back a measurement only.
\<close>

theorem h_returns_coordinates:
  "h this s = x s \<and>
   h that \<lparr>x = [1, 2, 3, 4, 5, 6 :: real], v = w\<rparr> = [1, 2, 3, 4, 5, 6]"
  by (simp add: h_def)

text \<open>
  C4. The constructor sets \<open>V\<close> to the identity, and after any sequence of calls of
  \<open>h\<close> and \<open>updateJacobians\<close>, with any engine behind \<open>num_diff.df\<close> and any outcome of
  each call, \<open>V\<close> is still that matrix; for an \<open>n\<close> by \<open>n\<close> noise Jacobian it is the
  \<open>n\<close> by \<open>n\<close> identity matrix.
\<close>

theorem noise_jacobian_constant:
  "V (LiePositionMeasurementModel nd base) = setIdentity (V base) \<and>
   V (run eng nv calls (LiePositionMeasurementModel nd base)) = setIdentity (V base) \<and>
   V (run eng nv calls (LiePositionMeasurementModel nd (base\<lparr>V := alloc n n mem\<rparr>))) =
     identity_mat n"
  by (simp add: run_V LiePositionMeasurementModel_def setIdentity_square)

text \<open>
  C5. Two states with the same coordinates and any velocities give the same
  measurement and the same result of \<open>updateJacobians\<close> (the same stored Jacobian, with
  any engine behind \<open>num_diff.df\<close>), and the functor evaluates to its argument without
  reading a velocity.
\<close>

theorem velocity_not_consumed:
  assumes "x s1 = x s2"
  shows "h this s1 = h this s2 \<and>
         updateJacobians eng nv mem s1 this = updateJacobians eng nv mem s2 this \<and>
         LieFunctor_operator nv this (x s1) = (0, x s2)"
  using assms by (simp add: h_def updateJacobians_def LieFunctor_operator_eq)

theorem velocity_not_consumed_witness:
  "x example_state = x (example_state\<lparr>v := [1, 1, 1, 1, 1, 1]\<rparr>) \<and>
   h example_model example_state = h example_model (example_state\<lparr>v := [1, 1, 1, 1, 1, 1]\<rparr>) \<and>
   updateJacobians df 6 (const_storage 0) example_state example_model =
     updateJacobians df 6 (const_storage 0) (example_state\<lparr>v := [1, 1, 1, 1, 1, 1]\<rparr>)
       example_model \<and>
   LieFunctor_operator 6 example_model (x example_state) =
     (0, x (example_state\<lparr>v := [1, 1, 1, 1, 1, 1]\<rparr>))"
proof -
  have e: "x example_state = x (example_state\<lparr>v := [1, 1, 1, 1, 1, 1]\<rparr>)" by simp
  show ?thesis
    using e velocity_not_consumed [OF e, of example_model df 6 "const_storage 0"]
    by blast
qed

text \<open>
  C6, evaluated where it fails. Two calls of \<open>updateJacobians\<close> on the same model, with
  the same state and the same step-size parameters, store different Jacobians when the
  storage of the work matrix differs: column 6 of \<open>H\<close> is what the storage held.
\<close>

theorem linearize_depends_on_work_storage:
  "columns (H (fst (updateJacobians df 6 (const_storage 0) example_state example_model))) ! 6 =
     [0, 0, 0, 0, 0, 0] \<and>
   columns (H (fst (updateJacobians df 6 (const_storage 1) example_state example_model))) ! 6 =
     [1, 1, 1, 1, 1, 1]"
proof -
  have six: "[0..<6] = [0, 1, 2, 3, 4, 5]" by (simp add: upt_rec)
  have "columns (H (fst (updateJacobians df 6 mem example_state example_model))) ! 6 =
          map (\<lambda>i. mem i 6) [0..<6]" for mem
  proof -
    from updateJacobians_df_ok [OF example_config_ok example_state_length, of 6 mem]
    obtain cs where cs: "length cs = 6"
      and "columns (H (fst (updateJacobians df 6 mem example_state example_model))) =
             cs @ drop 6 (columns (alloc 6 12 mem))"
      by auto
    then show ?thesis
      by (simp only: right_block_entry [OF cs])
  qed
  then show ?thesis
    by (simp add: const_storage_def six)
qed

text \<open>
  C7. With any engine behind \<open>num_diff.df\<close>, for every state and every outcome,
  \<open>updateJacobians\<close> overwrites \<open>H\<close> and changes no other field of the model. The
  stored \<open>H\<close> is the matrix the engine handed back for the work matrix of this call when
  the engine succeeds, and the matrix of the old shape with every coefficient 0 when it
  fails; \<open>V\<close>, \<open>num_diff\<close> and every component of the base classes are as before the
  call.
\<close>

theorem updateJacobians_frame:
  "fst (updateJacobians eng nv mem s this) =
     this\<lparr>H := H (fst (updateJacobians eng nv mem s this))\<rparr> \<and>
   V (fst (updateJacobians eng nv mem s this)) = V this \<and>
   num_diff (fst (updateJacobians eng nv mem s this)) = num_diff this \<and>
   model.more (fst (updateJacobians eng nv mem s this)) = model.more this \<and>
   H (fst (updateJacobians eng nv mem s this)) =
     (case eng (num_diff this) (LieFunctor nv this) (x s) (alloc 6 12 mem) of
        Inl e \<Rightarrow>
          \<lparr>nrows = nrows (H this), ncols = ncols (H this),
           columns = replicate (ncols (H this)) (replicate (nrows (H this)) 0)\<rparr>
      | Inr jac' \<Rightarrow> jac')"
  by (simp add: updateJacobians_result split: sum.split)

text \<open>
  C9. For every input vector, of any length, the evaluation operator of the functor
  returns the status code 0, also when called through the functor the engine receives.
\<close>

theorem LieFunctor_operator_status:
  "fst (LieFunctor_operator nv m xs) = 0 \<and> fst (operator (LieFunctor nv m) xs) = 0"
  by (simp add: LieFunctor_def LieFunctor_operator_eq)

text \<open>
  C10. With any engine behind \<open>num_diff.df\<close>, the previous Jacobian plays no part in a
  call of \<open>updateJacobians\<close>: the result is the same as on the model whose \<open>H\<close> was zero
  already. When the engine fails, the call ends with that failure and the stored \<open>H\<close>
  has the old shape and every coefficient 0; when the engine succeeds, the stored \<open>H\<close>
  is the matrix the engine handed back for this call.
\<close>

theorem updateJacobians_discards_stale:
  "updateJacobians eng nv mem s (this\<lparr>H := setZero (H this)\<rparr>) =
     updateJacobians eng nv mem s this \<and>
   (case eng (num_diff this) (LieFunctor nv this) (x s) (alloc 6 12 mem) of
      Inl e \<Rightarrow>
        snd (snd (updateJacobians eng nv mem s this)) = Inl e \<and>
        nrows (H (fst (updateJacobians eng nv mem s this))) = nrows (H this) \<and>
        ncols (H (fst (updateJacobians eng nv mem s this))) = ncols (H this) \<and>
        columns (H (fst (updateJacobians eng nv mem s this))) =
          replicate (ncols (H this)) (replicate (nrows (H this)) 0)
    | Inr jac' \<Rightarrow>
        snd (snd (updateJacobians eng nv mem s this)) = Inr () \<and>
        H (fst (updateJacobians eng nv mem s this)) = jac')"
proof -
  have "updateJacobians eng nv mem s (this\<lparr>H := setZero (H this)\<rparr>) =
          updateJacobians eng nv mem s this"
    by (simp add: updateJacobians_def Let_def setZero_idem
        LieFunctor_independent [of nv "this\<lparr>H := setZero (H this)\<rparr>" nv this])
  then show ?thesis
    by (simp add: updateJacobians_result split: sum.split)
qed

end
